theory Spec2Isabelle
  imports Main "HOL-Library.Word"
begin

section \<open>The simulateTransaction handler of soroban-rpc\<close>

text \<open>
  This theory embeds \<^verbatim>\<open>cmd/soroban-rpc/internal/methods/simulate_transaction.go\<close>:
  the JSON-RPC handler built by \<^verbatim>\<open>NewSimulateTransactionHandler\<close> and its helper
  \<^verbatim>\<open>getBucketListSize\<close>.

  The handler is a function of the request and of four collaborators: the XDR decoder,
  the ledger-entry reader, the ledger reader and the preflight getter. The model passes
  them in a record of functions, returns the handler's result as a value and records
  every call to a collaborator in a trace, in the order the handler makes them.

  Go can leave the handler in two ways: by returning a response, or by a run-time panic
  on a nil pointer. Both are values of the model.
\<close>

datatype 'a outcome = Returns 'a | Panics

subsection \<open>XDR values, as the handler reads them\<close>

text \<open>
  The XDR types belong to the Go SDK. Only the parts that the handler inspects are kept;
  opaque parts are carried as their encoded bytes. An XDR union is a Go struct with a
  discriminant and one pointer per arm; a decoded value has exactly the pointer of the
  discriminant's arm set and every other pointer nil. The unions of the envelope are
  therefore datatypes, and the Go field of an arm is a partial accessor: \<open>None\<close> is nil.
\<close>

datatype AccountId = AccountId string

datatype MuxedAccount =
    MuxedAccountEd25519 string
  | MuxedAccountMed25519 "64 word" string

fun ToAccountId :: "MuxedAccount \<Rightarrow> AccountId" where
  "ToAccountId (MuxedAccountEd25519 k) = AccountId k"
| "ToAccountId (MuxedAccountMed25519 i k) = AccountId k"

text \<open>
  The three operation types the handler names, and every other one, which carries the
  name that \<^verbatim>\<open>OperationType.String()\<close> gives it.
\<close>

datatype OperationType =
    OperationTypeInvokeHostFunction
  | OperationTypeBumpFootprintExpiration
  | OperationTypeRestoreFootprint
  | OperationTypeOther string

fun OperationType_String :: "OperationType \<Rightarrow> string" where
  "OperationType_String OperationTypeInvokeHostFunction = ''OperationTypeInvokeHostFunction''"
| "OperationType_String OperationTypeBumpFootprintExpiration = ''OperationTypeBumpFootprintExpiration''"
| "OperationType_String OperationTypeRestoreFootprint = ''OperationTypeRestoreFootprint''"
| "OperationType_String (OperationTypeOther name) = name"

record OperationBody =
  BodyType :: OperationType
  BodyArm :: string

record Operation =
  SourceAccount :: "MuxedAccount option"
  Body :: OperationBody

datatype LedgerKey = LedgerKey string

record LedgerFootprint =
  ReadOnly :: "LedgerKey list"
  ReadWrite :: "LedgerKey list"

record SorobanResources =
  Footprint :: LedgerFootprint
  Instructions :: "32 word"
  ReadBytes :: "32 word"
  WriteBytes :: "32 word"

record SorobanTransactionData =
  Resources :: SorobanResources
  RefundableFee :: "64 word"

datatype TransactionExt =
    TransactionExtV0
  | TransactionExtV1 SorobanTransactionData

fun ExtV :: "TransactionExt \<Rightarrow> 32 word" where
  "ExtV TransactionExtV0 = 0"
| "ExtV (TransactionExtV1 d) = 1"

fun SorobanData :: "TransactionExt \<Rightarrow> SorobanTransactionData option" where
  "SorobanData TransactionExtV0 = None"
| "SorobanData (TransactionExtV1 d) = Some d"

record TransactionV0 =
  SourceAccountEd25519 :: string
  OperationsV0 :: "Operation list"

record TransactionV1 =
  TxSourceAccount :: MuxedAccount
  TxOperations :: "Operation list"
  Ext :: TransactionExt

record FeeBumpTransaction =
  FeeSource :: MuxedAccount
  InnerTx :: TransactionV1

datatype EnvelopeType =
    EnvelopeTypeEnvelopeTypeTxV0
  | EnvelopeTypeEnvelopeTypeTx
  | EnvelopeTypeEnvelopeTypeTxFeeBump

datatype TransactionEnvelope =
    EnvelopeTxV0 TransactionV0
  | EnvelopeTx TransactionV1
  | EnvelopeTxFeeBump FeeBumpTransaction

fun EnvType :: "TransactionEnvelope \<Rightarrow> EnvelopeType" where
  "EnvType (EnvelopeTxV0 t) = EnvelopeTypeEnvelopeTypeTxV0"
| "EnvType (EnvelopeTx t) = EnvelopeTypeEnvelopeTypeTx"
| "EnvType (EnvelopeTxFeeBump t) = EnvelopeTypeEnvelopeTypeTxFeeBump"

text \<open>The field \<^verbatim>\<open>txEnvelope.V1\<close>: a pointer, nil unless the envelope is of type Tx.\<close>

fun V1 :: "TransactionEnvelope \<Rightarrow> TransactionV1 option" where
  "V1 (EnvelopeTx t) = Some t"
| "V1 (EnvelopeTxV0 t) = None"
| "V1 (EnvelopeTxFeeBump t) = None"

text \<open>
  \<^verbatim>\<open>TransactionEnvelope.Operations()\<close> and \<^verbatim>\<open>TransactionEnvelope.SourceAccount()\<close>
  switch on the envelope type; a fee bump answers with its inner transaction.
\<close>

fun Operations :: "TransactionEnvelope \<Rightarrow> Operation list" where
  "Operations (EnvelopeTxFeeBump t) = TxOperations (InnerTx t)"
| "Operations (EnvelopeTx t) = TxOperations t"
| "Operations (EnvelopeTxV0 t) = OperationsV0 t"

fun EnvelopeSourceAccount :: "TransactionEnvelope \<Rightarrow> MuxedAccount" where
  "EnvelopeSourceAccount (EnvelopeTxFeeBump t) = TxSourceAccount (InnerTx t)"
| "EnvelopeSourceAccount (EnvelopeTx t) = TxSourceAccount t"
| "EnvelopeSourceAccount (EnvelopeTxV0 t) = MuxedAccountEd25519 (SourceAccountEd25519 t)"

text \<open>
  The close-meta record keeps its discriminant as the number the handler prints
  (an \<^verbatim>\<open>int32\<close>) and its V2 arm as a pointer.
\<close>

record LedgerCloseMetaV2 =
  TotalByteSizeOfBucketList :: "64 word"

record LedgerCloseMeta =
  V :: "32 word"
  V2 :: "LedgerCloseMetaV2 option"

subsection \<open>Requests, responses and collaborators\<close>

record SimulateTransactionRequest =
  Transaction :: string

record SimulateTransactionCost =
  CPUInstructions :: "64 word"
  MemoryBytes :: "64 word"

record SimulateHostFunctionResult =
  Auth :: "string list"
  XDR :: string

text \<open>A Go slice is a list; the nil slice and the empty slice are both \<open>[]\<close>.\<close>

record SimulateTransactionResponse =
  Error :: string
  TransactionData :: string
  Events :: "string list"
  MinResourceFee :: "64 word"
  Results :: "SimulateHostFunctionResult list"
  Cost :: SimulateTransactionCost
  LatestLedger :: "64 word"

text \<open>
  \<^verbatim>\<open>preflight.Preflight\<close>, with the fields the handler copies into the response.
  Record fields share one name space, so \<^verbatim>\<open>Events\<close>, \<^verbatim>\<open>TransactionData\<close>,
  \<^verbatim>\<open>Auth\<close>, \<^verbatim>\<open>CPUInstructions\<close> and \<^verbatim>\<open>MemoryBytes\<close> of the preflight
  result carry the prefix \<open>Preflight\<close>.
\<close>

record Preflight =
  PreflightEvents :: "string list"
  PreflightTransactionData :: string
  MinFee :: "64 word"
  Result :: string
  PreflightAuth :: "string list"
  PreflightCPUInstructions :: "64 word"
  PreflightMemoryBytes :: "64 word"

text \<open>
  A read transaction of the ledger-entry store: what \<^verbatim>\<open>GetLatestLedgerSequence\<close>
  answers (an error message or the sequence) and the entries it holds, which only the
  preflight reads.
\<close>

record LedgerEntryReadTx =
  GetLatestLedgerSequence :: "string + 32 word"
  Entries :: "(LedgerKey \<times> string) list"

text \<open>
  The collaborators. A Go \<^verbatim>\<open>error\<close> is the message \<^verbatim>\<open>err.Error()\<close> gives.
  \<^verbatim>\<open>GetLedger\<close> returns \<^verbatim>\<open>(closeMeta, ok, err)\<close>: \<open>Inl\<close> is the error,
  \<open>Inr None\<close> is \<^verbatim>\<open>ok == false\<close>. \<^verbatim>\<open>GetPreflight\<close> returns the pair
  \<^verbatim>\<open>(preflight.Preflight, error)\<close> as Go does: both components, the error nil or not.
\<close>

record collaborators =
  SafeUnmarshalBase64 :: "string \<Rightarrow> string + TransactionEnvelope"
  NewCachedTx :: "string + LedgerEntryReadTx"
  GetLedger :: "32 word \<Rightarrow> string + LedgerCloseMeta option"
  GetPreflight :: "LedgerEntryReadTx \<Rightarrow> 64 word \<Rightarrow> AccountId \<Rightarrow> OperationBody
                     \<Rightarrow> LedgerFootprint \<Rightarrow> Preflight \<times> string option"

text \<open>The calls the handler makes, in a trace.\<close>

datatype call =
    CallLogInfo string
  | CallNewCachedTx
  | CallGetLatestLedgerSequence
  | CallGetLedger "32 word"
  | CallGetPreflight LedgerEntryReadTx "64 word" AccountId OperationBody LedgerFootprint
  | CallDone

fun is_NewCachedTx :: "call \<Rightarrow> bool" where
  "is_NewCachedTx CallNewCachedTx = True"
| "is_NewCachedTx _ = False"


subsection \<open>Formatting\<close>

text \<open>The verb \<^verbatim>\<open>%d\<close> of \<^verbatim>\<open>fmt.Errorf\<close>: decimal digits, a minus sign when negative.\<close>

fun decimal :: "nat \<Rightarrow> string" where
  "decimal n = (if n < 10 then [''0123456789'' ! n]
                else decimal (n div 10) @ [''0123456789'' ! (n mod 10)])"

declare decimal.simps [simp del]

definition decimal_int :: "int \<Rightarrow> string" where
  "decimal_int i = (if i < 0 then CHR ''-'' # decimal (nat (- i)) else decimal (nat i))"




subsection \<open>The handler\<close>

definition zero_response :: SimulateTransactionResponse where
  "zero_response =
     \<lparr>Error = [], TransactionData = [], Events = [], MinResourceFee = 0, Results = [],
      Cost = \<lparr>CPUInstructions = 0, MemoryBytes = 0\<rparr>, LatestLedger = 0\<rparr>"

text \<open>\<^verbatim>\<open>SimulateTransactionResponse{Error: msg}\<close>: every other field has its zero value.\<close>

definition error_response :: "string \<Rightarrow> SimulateTransactionResponse" where
  "error_response msg = zero_response\<lparr>Error := msg\<rparr>"

definition MissingSorobanData :: string where
  "MissingSorobanData = ''To perform a SimulateTransaction for BumpFootprintExpiration or RestoreFootprint operations, SorobanTransactionData must be provided''"

text \<open>\<^verbatim>\<open>getBucketListSize\<close> (lines 136 to 149).\<close>

definition getBucketListSize ::
    "collaborators \<Rightarrow> 32 word \<Rightarrow> (string + 64 word) outcome \<times> call list" where
  "getBucketListSize c latestLedger =
     ((case GetLedger c latestLedger of
         Inl err \<Rightarrow> Returns (Inl err)
       | Inr None \<Rightarrow>
           Returns (Inl (''missing meta for latest ledger ('' @ decimal (unat latestLedger) @ '')''))
       | Inr (Some closeMeta) \<Rightarrow>
           if V closeMeta \<noteq> 2 then
             Returns (Inl (''latest ledger ('' @ decimal (unat latestLedger)
                            @ '') meta has unexpected verion (''
                            @ decimal_int (sint (V closeMeta)) @ '')''))
           else (case V2 closeMeta of
                   None \<Rightarrow> Panics
                 | Some v2 \<Rightarrow> Returns (Inr (TotalByteSizeOfBucketList v2)))),
      [CallGetLedger latestLedger])"

text \<open>
  The assignment of line 80, \<^verbatim>\<open>txEnvelope.V1.Tx.Ext.SorobanData.Resources.Footprint\<close>:
  two pointers are followed, and a nil one panics.
\<close>

definition readFootprint :: "TransactionEnvelope \<Rightarrow> LedgerFootprint outcome" where
  "readFootprint txEnvelope =
     (case V1 txEnvelope of
        None \<Rightarrow> Panics
      | Some tx \<Rightarrow>
          (case SorobanData (Ext tx) of
             None \<Rightarrow> Panics
           | Some d \<Rightarrow> Returns (Footprint (Resources d))))"

text \<open>
  The switch on the operation type (lines 71 to 85). It ends the handler with a response
  (\<open>Inl\<close>), hands on the footprint (\<open>Inr\<close>), or panics. The condition of line 75 is
  evaluated as Go does: the right operand of \<^verbatim>\<open>&&\<close> only when the left one is true.
  The last case below is the case of line 74, BumpFootprintExpiration and
  RestoreFootprint; the case before it is the default of line 81.
\<close>

definition selectFootprint ::
    "TransactionEnvelope \<Rightarrow> Operation \<Rightarrow> (SimulateTransactionResponse + LedgerFootprint) outcome" where
  "selectFootprint txEnvelope op =
     (case BodyType (Body op) of
        OperationTypeInvokeHostFunction \<Rightarrow> Returns (Inr \<lparr>ReadOnly = [], ReadWrite = []\<rparr>)
      | OperationTypeOther name \<Rightarrow>
          Returns (Inl (error_response (''Transaction contains unsupported operation type: ''
                                        @ OperationType_String (BodyType (Body op)))))
      | _ \<Rightarrow>
          (if EnvType txEnvelope \<noteq> EnvelopeTypeEnvelopeTypeTx then
             (case V1 txEnvelope of
                None \<Rightarrow> Panics
              | Some tx \<Rightarrow>
                  if ExtV (Ext tx) \<noteq> 1 then Returns (Inl (error_response MissingSorobanData))
                  else (case readFootprint txEnvelope of
                          Panics \<Rightarrow> Panics
                        | Returns fp \<Rightarrow> Returns (Inr fp)))
           else (case readFootprint txEnvelope of
                   Panics \<Rightarrow> Panics
                 | Returns fp \<Rightarrow> Returns (Inr fp))))"

text \<open>
  Lines 87 to 132: the read transaction, the latest ledger, the bucket-list size, the
  preflight and the response. The deferred \<^verbatim>\<open>readTx.Done()\<close> runs on every way out
  once the read transaction exists, so it closes the trace.
\<close>

definition runPreflight ::
    "collaborators \<Rightarrow> AccountId \<Rightarrow> OperationBody \<Rightarrow> LedgerFootprint
       \<Rightarrow> SimulateTransactionResponse outcome \<times> call list" where
  "runPreflight c sourceAccount opBody footprint =
     (case NewCachedTx c of
        Inl err \<Rightarrow> (Returns (error_response ''Cannot create read transaction''), [CallNewCachedTx])
      | Inr readTx \<Rightarrow>
          (case GetLatestLedgerSequence readTx of
             Inl err \<Rightarrow>
               (Returns (error_response err),
                [CallNewCachedTx, CallGetLatestLedgerSequence, CallDone])
           | Inr latestLedger \<Rightarrow>
               (case getBucketListSize c latestLedger of
                  (Panics, calls) \<Rightarrow>
                    (Panics, [CallNewCachedTx, CallGetLatestLedgerSequence] @ calls @ [CallDone])
                | (Returns (Inl err), calls) \<Rightarrow>
                    (Returns (error_response err),
                     [CallNewCachedTx, CallGetLatestLedgerSequence] @ calls @ [CallDone])
                | (Returns (Inr bucketListSize), calls) \<Rightarrow>
                    (case GetPreflight c readTx bucketListSize sourceAccount opBody footprint of
                       (result, Some err) \<Rightarrow>
                         (Returns (zero_response\<lparr>Error := err, LatestLedger := ucast latestLedger\<rparr>),
                          [CallNewCachedTx, CallGetLatestLedgerSequence] @ calls
                          @ [CallGetPreflight readTx bucketListSize sourceAccount opBody footprint,
                             CallDone])
                     | (result, None) \<Rightarrow>
                         (Returns
                            \<lparr>Error = [],
                             TransactionData = PreflightTransactionData result,
                             Events = PreflightEvents result,
                             MinResourceFee = MinFee result,
                             Results = [\<lparr>Auth = PreflightAuth result, XDR = Result result\<rparr>],
                             Cost = \<lparr>CPUInstructions = PreflightCPUInstructions result,
                                     MemoryBytes = PreflightMemoryBytes result\<rparr>,
                             LatestLedger = ucast latestLedger\<rparr>,
                          [CallNewCachedTx, CallGetLatestLedgerSequence] @ calls
                          @ [CallGetPreflight readTx bucketListSize sourceAccount opBody footprint,
                             CallDone])))))"

text \<open>The handler (lines 48 to 133).\<close>

definition NewSimulateTransactionHandler ::
    "collaborators \<Rightarrow> SimulateTransactionRequest
       \<Rightarrow> SimulateTransactionResponse outcome \<times> call list" where
  "NewSimulateTransactionHandler c request =
     (case SafeUnmarshalBase64 c (Transaction request) of
        Inl err \<Rightarrow>
          (Returns (error_response ''Could not unmarshal transaction''),
           [CallLogInfo ''could not unmarshal simulate transaction envelope''])
      | Inr txEnvelope \<Rightarrow>
          if length (Operations txEnvelope) \<noteq> 1 then
            (Returns (error_response ''Transaction contains more than one operation''), [])
          else
            let op = Operations txEnvelope ! 0;
                sourceAccount =
                  (case SourceAccount op of
                     Some opSourceAccount \<Rightarrow> ToAccountId opSourceAccount
                   | None \<Rightarrow> ToAccountId (EnvelopeSourceAccount txEnvelope))
            in (case selectFootprint txEnvelope op of
                  Panics \<Rightarrow> (Panics, [])
                | Returns (Inl response) \<Rightarrow> (Returns response, [])
                | Returns (Inr footprint) \<Rightarrow> runPreflight c sourceAccount (Body op) footprint))"

subsection \<open>Concrete runs\<close>

text \<open>
  Small inputs on which the handler is evaluated below: operations of a given type, an
  inline resource declaration with a two-key footprint, a read transaction, a close-meta
  record of a given version, a preflight result, and collaborators that decode one
  request string into a given envelope and answer with given results.
\<close>

definition exampleOp :: "OperationType \<Rightarrow> Operation" where
  "exampleOp t = \<lparr>SourceAccount = None, Body = \<lparr>BodyType = t, BodyArm = []\<rparr>\<rparr>"

definition exampleFootprint :: LedgerFootprint where
  "exampleFootprint = \<lparr>ReadOnly = [LedgerKey ''code''], ReadWrite = [LedgerKey ''data'']\<rparr>"

definition exampleSorobanData :: SorobanTransactionData where
  "exampleSorobanData =
     \<lparr>Resources = \<lparr>Footprint = exampleFootprint, Instructions = 0, ReadBytes = 0, WriteBytes = 0\<rparr>,
      RefundableFee = 0\<rparr>"

definition exampleTx :: "Operation list \<Rightarrow> TransactionExt \<Rightarrow> TransactionV1" where
  "exampleTx ops ext =
     \<lparr>TxSourceAccount = MuxedAccountEd25519 ''GA'', TxOperations = ops, Ext = ext\<rparr>"

definition exampleTxV0 :: "Operation list \<Rightarrow> TransactionV0" where
  "exampleTxV0 ops = \<lparr>SourceAccountEd25519 = ''GA'', OperationsV0 = ops\<rparr>"

definition exampleReadTx :: "string + 32 word \<Rightarrow> LedgerEntryReadTx" where
  "exampleReadTx latest = \<lparr>GetLatestLedgerSequence = latest, Entries = []\<rparr>"

definition exampleCloseMeta :: "32 word \<Rightarrow> LedgerCloseMeta" where
  "exampleCloseMeta v =
     \<lparr>V = v, V2 = (if v = 2 then Some \<lparr>TotalByteSizeOfBucketList = 4096\<rparr> else None)\<rparr>"

definition examplePreflight :: Preflight where
  "examplePreflight =
     \<lparr>PreflightEvents = [''AAAAAQ==''], PreflightTransactionData = ''AAAAAA=='', MinFee = 100,
      Result = ''AAAAAw=='', PreflightAuth = [], PreflightCPUInstructions = 1500,
      PreflightMemoryBytes = 300\<rparr>"

definition exampleCollaborators ::
    "TransactionEnvelope \<Rightarrow> (string + 32 word) \<Rightarrow> (string + LedgerCloseMeta option)
       \<Rightarrow> (Preflight \<times> string option) \<Rightarrow> collaborators" where
  "exampleCollaborators txEnvelope latest closeMeta result =
     \<lparr>SafeUnmarshalBase64 =
        (\<lambda>s. if s = ''AAAAAg=='' then Inr txEnvelope else Inl ''xdr: decoding failed''),
      NewCachedTx = Inr (exampleReadTx latest),
      GetLedger = (\<lambda>seq. if seq = 7 then closeMeta else Inr None),
      GetPreflight = (\<lambda>tx b a body fp. result)\<rparr>"

definition exampleRequest :: SimulateTransactionRequest where
  "exampleRequest = \<lparr>Transaction = ''AAAAAg==''\<rparr>"

text \<open>
  A preflight that answers with the keys of the footprint it is given, written into the
  transaction data of its result: its answer tells which footprint it received.
\<close>

fun keyBytes :: "LedgerKey \<Rightarrow> string" where
  "keyBytes (LedgerKey s) = s"

definition echoFootprint :: "LedgerFootprint \<Rightarrow> Preflight \<times> string option" where
  "echoFootprint fp =
     (examplePreflight\<lparr>PreflightTransactionData := concat (map keyBytes (ReadOnly fp @ ReadWrite fp))\<rparr>,
      None)"

definition exampleEchoCollaborators :: "TransactionEnvelope \<Rightarrow> collaborators" where
  "exampleEchoCollaborators txEnvelope =
     (exampleCollaborators txEnvelope (Inr 7) (Inr (Some (exampleCloseMeta 2))) (examplePreflight, None))
       \<lparr>GetPreflight := (\<lambda>tx b a body fp. echoFootprint fp)\<rparr>"

section \<open>Properties of the handler\<close>

subsection \<open>Unfolding and evaluation\<close>

lemmas example_defs = exampleOp_def exampleFootprint_def exampleSorobanData_def exampleTx_def
  exampleTxV0_def exampleReadTx_def exampleCloseMeta_def examplePreflight_def
  exampleCollaborators_def exampleRequest_def

lemmas handler_defs = NewSimulateTransactionHandler_def selectFootprint_def readFootprint_def
  runPreflight_def getBucketListSize_def error_response_def zero_response_def

lemmas run_defs = handler_defs example_defs MissingSorobanData_def

subsection \<open>The conversion of the ledger sequence\<close>

text \<open>
  \<^verbatim>\<open>int64(latestLedger)\<close> widens a \<^verbatim>\<open>uint32\<close>: the signed 64-bit value is the
  unsigned 32-bit one, nothing wraps.
\<close>

lemma sint_ucast_32_64: "sint (ucast (L :: 32 word) :: 64 word) = uint L"
proof -
  have "uint (ucast L :: 64 word) = uint L"
    by (rule uint_up_ucast) (simp add: is_up)
  moreover have "uint L < 2 ^ 63"
    using uint_lt2p [of L] by simp
  moreover have "- (2 ^ 63) \<le> uint L"
    by (rule order_trans [of _ 0]) simp_all
  ultimately show ?thesis
    by (simp add: sint_uint signed_take_bit_int_eq_self)
qed

subsection \<open>Which calls a run makes\<close>

text \<open>
  \<^verbatim>\<open>getBucketListSize\<close> makes one call. A preflight call, or a close-meta lookup, in
  the trace of the handler fixes the path the handler took: the envelope decoded, it
  had one operation, the switch handed on a footprint, the read transaction was created
  and answered with its latest ledger.
\<close>

lemma getBucketListSize_calls: "getBucketListSize c L = (r, calls) \<Longrightarrow> calls = [CallGetLedger L]"
  by (auto simp: getBucketListSize_def)

lemma runPreflight_GetPreflight:
  assumes "CallGetPreflight tx b a body fp \<in> set (snd (runPreflight c a' body' fp'))"
  shows "a = a' \<and> body = body' \<and> fp = fp' \<and> NewCachedTx c = Inr tx \<and>
         (\<exists>L. GetLatestLedgerSequence tx = Inr L \<and>
              getBucketListSize c L = (Returns (Inr b), [CallGetLedger L]))"
  using assms
  by (auto simp: runPreflight_def
           split: sum.splits option.splits outcome.splits prod.splits if_splits
           dest: getBucketListSize_calls)

lemma runPreflight_GetLedger:
  assumes "CallGetLedger L \<in> set (snd (runPreflight c a body fp))"
  shows "\<exists>tx. NewCachedTx c = Inr tx \<and> GetLatestLedgerSequence tx = Inr L"
  using assms
  by (auto simp: runPreflight_def
           split: sum.splits option.splits outcome.splits prod.splits if_splits
           dest: getBucketListSize_calls)

lemma handler_reaches_runPreflight:
  assumes "snd (NewSimulateTransactionHandler c request) \<noteq> []"
    and "\<forall>m. snd (NewSimulateTransactionHandler c request) \<noteq> [CallLogInfo m]"
  shows "\<exists>txEnvelope op.
           SafeUnmarshalBase64 c (Transaction request) = Inr txEnvelope \<and>
           Operations txEnvelope = [op] \<and>
           (\<exists>fp a. selectFootprint txEnvelope op = Returns (Inr fp) \<and>
           NewSimulateTransactionHandler c request = runPreflight c a (Body op) fp)"
  using assms
  by (auto simp: NewSimulateTransactionHandler_def Let_def length_Suc_conv
           split: sum.splits option.splits outcome.splits if_splits)

lemma handler_GetPreflight:
  assumes "CallGetPreflight tx b a body fp \<in> set (snd (NewSimulateTransactionHandler c request))"
  shows "\<exists>txEnvelope op L.
           SafeUnmarshalBase64 c (Transaction request) = Inr txEnvelope \<and>
           Operations txEnvelope = [op] \<and> body = Body op \<and>
           selectFootprint txEnvelope op = Returns (Inr fp) \<and>
           NewSimulateTransactionHandler c request = runPreflight c a body fp \<and>
           NewCachedTx c = Inr tx \<and> GetLatestLedgerSequence tx = Inr L \<and>
           getBucketListSize c L = (Returns (Inr b), [CallGetLedger L])"
proof -
  from assms have ne: "snd (NewSimulateTransactionHandler c request) \<noteq> []"
    and nl: "\<forall>m. snd (NewSimulateTransactionHandler c request) \<noteq> [CallLogInfo m]"
    by auto
  from handler_reaches_runPreflight [OF ne nl]
  obtain txEnvelope op fp' a' where
    d: "SafeUnmarshalBase64 c (Transaction request) = Inr txEnvelope"
    and o: "Operations txEnvelope = [op]"
    and s: "selectFootprint txEnvelope op = Returns (Inr fp')"
    and h: "NewSimulateTransactionHandler c request = runPreflight c a' (Body op) fp'"
    by blast
  from assms h have "CallGetPreflight tx b a body fp \<in> set (snd (runPreflight c a' (Body op) fp'))"
    by simp
  from runPreflight_GetPreflight [OF this] d o s h show ?thesis
    by auto
qed

lemma handler_GetLedger:
  assumes "CallGetLedger L \<in> set (snd (NewSimulateTransactionHandler c request))"
  shows "\<exists>a body fp tx.
           NewSimulateTransactionHandler c request = runPreflight c a body fp \<and>
           NewCachedTx c = Inr tx \<and> GetLatestLedgerSequence tx = Inr L"
proof -
  from assms have ne: "snd (NewSimulateTransactionHandler c request) \<noteq> []"
    and nl: "\<forall>m. snd (NewSimulateTransactionHandler c request) \<noteq> [CallLogInfo m]"
    by auto
  from handler_reaches_runPreflight [OF ne nl]
  obtain a body fp where
    h: "NewSimulateTransactionHandler c request = runPreflight c a body fp"
    by blast
  with assms have "CallGetLedger L \<in> set (snd (runPreflight c a body fp))"
    by simp
  from runPreflight_GetLedger [OF this] h show ?thesis
    by blast
qed

subsection \<open>The results of the second half\<close>

lemma runPreflight_failure:
  assumes "NewCachedTx c = Inr tx" and "GetLatestLedgerSequence tx = Inr L"
    and "getBucketListSize c L = (Returns (Inr b), calls)"
    and "GetPreflight c tx b a body fp = (result, Some err)"
  shows "fst (runPreflight c a body fp)
           = Returns (zero_response\<lparr>Error := err, LatestLedger := ucast L\<rparr>)"
  using assms by (simp add: runPreflight_def)




subsection \<open>The switch on the operation type\<close>

text \<open>
  For BumpFootprintExpiration and RestoreFootprint the switch either hands on the inline
  footprint or panics. The response of line 76 is never returned: the right operand of
  \<^verbatim>\<open>&&\<close> is evaluated only for an envelope that is not of type Tx, whose
  \<^verbatim>\<open>V1\<close> is nil.
\<close>

lemma selectFootprint_bump_restore:
  assumes "BodyType (Body op) = OperationTypeBumpFootprintExpiration
           \<or> BodyType (Body op) = OperationTypeRestoreFootprint"
  shows "selectFootprint txEnvelope op =
           (case txEnvelope of
              EnvelopeTx tx \<Rightarrow>
                (case Ext tx of
                   TransactionExtV1 d \<Rightarrow> Returns (Inr (Footprint (Resources d)))
                 | TransactionExtV0 \<Rightarrow> Panics)
            | _ \<Rightarrow> Panics)"
  using assms
  by (auto simp: selectFootprint_def readFootprint_def
           split: TransactionEnvelope.splits TransactionExt.splits)

lemma selectFootprint_Inr:
  assumes "selectFootprint txEnvelope op = Returns (Inr fp)"
  shows "(BodyType (Body op) = OperationTypeInvokeHostFunction \<and> fp = \<lparr>ReadOnly = [], ReadWrite = []\<rparr>)
       \<or> ((BodyType (Body op) = OperationTypeBumpFootprintExpiration
            \<or> BodyType (Body op) = OperationTypeRestoreFootprint) \<and>
           (\<exists>tx d. txEnvelope = EnvelopeTx tx \<and> Ext tx = TransactionExtV1 d \<and>
                   fp = Footprint (Resources d)))"
proof (cases "BodyType (Body op)")
  case OperationTypeInvokeHostFunction
  with assms show ?thesis by (auto simp: selectFootprint_def)
next
  case OperationTypeBumpFootprintExpiration
  with assms selectFootprint_bump_restore [of op txEnvelope] show ?thesis
    by (auto split: TransactionEnvelope.splits TransactionExt.splits)
next
  case OperationTypeRestoreFootprint
  with assms selectFootprint_bump_restore [of op txEnvelope] show ?thesis
    by (auto split: TransactionEnvelope.splits TransactionExt.splits)
next
  case (OperationTypeOther name)
  with assms show ?thesis by (simp add: selectFootprint_def)
qed

lemma selectFootprint_Inl:
  assumes "selectFootprint txEnvelope op = Returns (Inl response)"
  shows "\<exists>name. BodyType (Body op) = OperationTypeOther name \<and>
           response = error_response (''Transaction contains unsupported operation type: '' @ name)"
proof (cases "BodyType (Body op)")
  case OperationTypeInvokeHostFunction
  with assms show ?thesis by (auto simp: selectFootprint_def)
next
  case OperationTypeBumpFootprintExpiration
  with assms selectFootprint_bump_restore [of op txEnvelope] show ?thesis
    by (auto split: TransactionEnvelope.splits TransactionExt.splits)
next
  case OperationTypeRestoreFootprint
  with assms selectFootprint_bump_restore [of op txEnvelope] show ?thesis
    by (auto split: TransactionEnvelope.splits TransactionExt.splits)
next
  case (OperationTypeOther name)
  with assms show ?thesis by (auto simp: selectFootprint_def)
qed

lemma runPreflight_opens_first:
  "\<exists>calls. snd (runPreflight c a body fp) = CallNewCachedTx # calls"
  by (auto simp: runPreflight_def split: sum.splits outcome.splits prod.splits option.splits)

lemma handler_early_exit:
  assumes "fst (NewSimulateTransactionHandler c request) = Returns r"
    and "\<not> list_ex is_NewCachedTx (snd (NewSimulateTransactionHandler c request))"
  shows "\<exists>msg. msg \<noteq> [] \<and> r = error_response msg"
proof (cases "SafeUnmarshalBase64 c (Transaction request)")
  case (Inl err)
  with assms(1) show ?thesis
    by (auto simp: NewSimulateTransactionHandler_def)
next
  case (Inr txEnvelope)
  note d = this
  show ?thesis
  proof (cases "length (Operations txEnvelope) = 1")
    case False
    with d assms(1) show ?thesis
      by (auto simp: NewSimulateTransactionHandler_def)
  next
    case True
    then obtain op where o: "Operations txEnvelope = [op]"
      by (auto simp: length_Suc_conv)
    show ?thesis
    proof (cases "selectFootprint txEnvelope op")
      case Panics
      with d o assms(1) show ?thesis
        by (simp add: NewSimulateTransactionHandler_def)
    next
      case (Returns x)
      show ?thesis
      proof (cases x)
        case (Inl response)
        with Returns selectFootprint_Inl [of txEnvelope op response] d o assms(1)
        show ?thesis
          by (auto simp: NewSimulateTransactionHandler_def)
      next
        case (Inr fp)
        with Returns d o obtain a where
          "NewSimulateTransactionHandler c request = runPreflight c a (Body op) fp"
          by (simp add: NewSimulateTransactionHandler_def Let_def)
        with runPreflight_opens_first [of c a "Body op" fp] assms(2) show ?thesis
          by auto
      qed
    qed
  qed
qed

lemma selectFootprint_never_missing:
  "selectFootprint txEnvelope op \<noteq> Returns (Inl (error_response MissingSorobanData))"
  by (cases "BodyType (Body op)"; cases txEnvelope)
     (auto simp: selectFootprint_def readFootprint_def error_response_def zero_response_def
          MissingSorobanData_def
           split: TransactionExt.splits if_splits option.splits outcome.splits)

lemma bump_restore_without_inline_data_panics:
  assumes "SafeUnmarshalBase64 c (Transaction request) = Inr txEnvelope"
    and "Operations txEnvelope = [op]"
    and "BodyType (Body op) = OperationTypeBumpFootprintExpiration
         \<or> BodyType (Body op) = OperationTypeRestoreFootprint"
    and "\<nexists>tx d. txEnvelope = EnvelopeTx tx \<and> Ext tx = TransactionExtV1 d"
  shows "NewSimulateTransactionHandler c request = (Panics, [])"
proof -
  from selectFootprint_bump_restore [OF assms(3), of txEnvelope] assms(4)
  have "selectFootprint txEnvelope op = Panics"
    by (auto split: TransactionEnvelope.splits TransactionExt.splits)
  with assms(1,2) show ?thesis
    by (simp add: NewSimulateTransactionHandler_def)
qed

text \<open>
  The three input errors the handler does report: a malformed envelope, an operation
  count other than one, an operation type it does not support. Each ends the handler
  with a response that holds the message only, and with no read transaction created.
\<close>

lemma reported_input_errors_open_no_snapshot:
  assumes "(\<exists>err. SafeUnmarshalBase64 c (Transaction request) = Inl err)
         \<or> (\<exists>txEnvelope. SafeUnmarshalBase64 c (Transaction request) = Inr txEnvelope \<and>
               length (Operations txEnvelope) \<noteq> 1)
         \<or> (\<exists>txEnvelope op name.
               SafeUnmarshalBase64 c (Transaction request) = Inr txEnvelope \<and>
               Operations txEnvelope = [op] \<and> BodyType (Body op) = OperationTypeOther name)"
  shows "\<exists>msg. msg \<noteq> [] \<and>
           fst (NewSimulateTransactionHandler c request) = Returns (error_response msg) \<and>
           \<not> list_ex is_NewCachedTx (snd (NewSimulateTransactionHandler c request))"
  using assms
  by (auto simp: NewSimulateTransactionHandler_def selectFootprint_def)

subsection \<open>Runs that differ only where the handler does not look\<close>

lemma runPreflight_cong:
  assumes "NewCachedTx c1 = NewCachedTx c2"
    and "\<forall>tx L. NewCachedTx c1 = Inr tx \<and> GetLatestLedgerSequence tx = Inr L
                 \<longrightarrow> GetLedger c1 L = GetLedger c2 L"
    and "\<forall>tx. NewCachedTx c1 = Inr tx \<longrightarrow> GetPreflight c1 tx = GetPreflight c2 tx"
  shows "runPreflight c1 a body fp = runPreflight c2 a body fp"
proof (cases "NewCachedTx c1")
  case (Inl err)
  moreover from Inl assms(1) have "NewCachedTx c2 = Inl err" by simp
  ultimately show ?thesis by (simp add: runPreflight_def)
next
  case (Inr tx)
  from Inr assms(1) have tx2: "NewCachedTx c2 = Inr tx" by simp
  show ?thesis
  proof (cases "GetLatestLedgerSequence tx")
    case (Inl err)
    with Inr tx2 show ?thesis by (simp add: runPreflight_def)
  next
    case L: (Inr L)
    from assms(2) Inr L have "GetLedger c1 L = GetLedger c2 L" by blast
    then have g: "getBucketListSize c1 L = getBucketListSize c2 L"
      by (simp add: getBucketListSize_def)
    from assms(3) Inr have p: "GetPreflight c1 tx = GetPreflight c2 tx" by blast
    from Inr tx2 L g p show ?thesis
      by (simp add: runPreflight_def split: prod.splits outcome.splits sum.splits)
  qed
qed

text \<open>
  The handler consults its collaborators at four points: the decoder on the request, the
  read transaction, the close-meta record of the latest ledger of that read transaction,
  and the preflight on that read transaction. Collaborators that agree there give the
  same run.
\<close>

lemma handler_frame:
  assumes "SafeUnmarshalBase64 c1 (Transaction request) = SafeUnmarshalBase64 c2 (Transaction request)"
    and "NewCachedTx c1 = NewCachedTx c2"
    and "\<forall>tx L. NewCachedTx c1 = Inr tx \<and> GetLatestLedgerSequence tx = Inr L
                 \<longrightarrow> GetLedger c1 L = GetLedger c2 L"
    and "\<forall>tx. NewCachedTx c1 = Inr tx \<longrightarrow> GetPreflight c1 tx = GetPreflight c2 tx"
  shows "NewSimulateTransactionHandler c1 request = NewSimulateTransactionHandler c2 request"
  using assms(1) runPreflight_cong [OF assms(2,3,4)]
  by (simp add: NewSimulateTransactionHandler_def Let_def split: sum.splits outcome.splits)

subsection \<open>A run with one operation\<close>

text \<open>
  With one operation in the envelope the handler is the switch followed by the second
  half; when the read transaction, the latest ledger and the bucket-list size are there,
  the second half is the response built from what \<^verbatim>\<open>GetPreflight\<close> returns on the
  arguments of line 109.
\<close>

lemma handler_single_op:
  assumes "SafeUnmarshalBase64 c (Transaction request) = Inr txEnvelope"
    and "Operations txEnvelope = [op]"
  shows "NewSimulateTransactionHandler c request =
           (case selectFootprint txEnvelope op of
              Panics \<Rightarrow> (Panics, [])
            | Returns (Inl response) \<Rightarrow> (Returns response, [])
            | Returns (Inr footprint) \<Rightarrow>
                runPreflight c
                  (case SourceAccount op of
                     Some opSourceAccount \<Rightarrow> ToAccountId opSourceAccount
                   | None \<Rightarrow> ToAccountId (EnvelopeSourceAccount txEnvelope))
                  (Body op) footprint)"
  using assms by (simp add: NewSimulateTransactionHandler_def)

lemma runPreflight_result:
  assumes "NewCachedTx c = Inr tx" and "GetLatestLedgerSequence tx = Inr L"
    and "fst (getBucketListSize c L) = Returns (Inr b)"
  shows "runPreflight c a body fp =
           (case GetPreflight c tx b a body fp of
              (result, Some err) \<Rightarrow>
                Returns (zero_response\<lparr>Error := err, LatestLedger := ucast L\<rparr>)
            | (result, None) \<Rightarrow>
                Returns
                  \<lparr>Error = [],
                   TransactionData = PreflightTransactionData result,
                   Events = PreflightEvents result,
                   MinResourceFee = MinFee result,
                   Results = [\<lparr>Auth = PreflightAuth result, XDR = Result result\<rparr>],
                   Cost = \<lparr>CPUInstructions = PreflightCPUInstructions result,
                           MemoryBytes = PreflightMemoryBytes result\<rparr>,
                   LatestLedger = ucast L\<rparr>,
            [CallNewCachedTx, CallGetLatestLedgerSequence, CallGetLedger L,
             CallGetPreflight tx b a body fp, CallDone])"
proof -
  obtain calls where g: "getBucketListSize c L = (Returns (Inr b), calls)"
    using assms(3) by (cases "getBucketListSize c L") simp
  from getBucketListSize_calls [OF g] g have "getBucketListSize c L = (Returns (Inr b), [CallGetLedger L])"
    by simp
  with assms(1,2) show ?thesis
    by (simp add: runPreflight_def split: prod.splits option.splits)
qed

lemma selectFootprint_invoke:
  "BodyType (Body op) = OperationTypeInvokeHostFunction \<Longrightarrow>
   selectFootprint txEnvelope op = Returns (Inr \<lparr>ReadOnly = [], ReadWrite = []\<rparr>)"
  by (simp add: selectFootprint_def)

lemma getBucketListSize_Inl_empty:
  "fst (getBucketListSize c L) = Returns (Inl []) \<Longrightarrow> GetLedger c L = Inl []"
  by (auto simp: getBucketListSize_def split: sum.splits option.splits if_splits)

subsection \<open>Renderings name their numbers\<close>








section \<open>The claims\<close>

subsection \<open>C1: missing resource data\<close>

text \<open>
  C1. For every envelope whose single operation is BumpFootprintExpiration or
  RestoreFootprint, the simulation is to return the missing-resource-data error unless
  the envelope is of type Tx and carries the inline Soroban data; an envelope of type Tx
  without the extension is to be rejected rather than have its footprint read.

  The handler does not do so. On an envelope of type Tx whose extension is version 0, the
  left operand of the condition of line 75 is false, the check is skipped, and line 80
  reads the footprint through the nil \<^verbatim>\<open>SorobanData\<close>: the handler panics and
  returns no response.
\<close>

theorem restore_without_soroban_data_panics:
  "NewSimulateTransactionHandler
     (exampleCollaborators
        (EnvelopeTx (exampleTx [exampleOp OperationTypeRestoreFootprint] TransactionExtV0))
        (Inr 7) (Inr (Some (exampleCloseMeta 2))) (examplePreflight, None))
     exampleRequest
   = (Panics, [])"
  by (simp add: run_defs)

subsection \<open>C2: a failing preflight\<close>

text \<open>
  C2, as the handler has it. When the preflight is invoked and returns an error, the
  response carries the error message and the latest ledger sequence of the read
  transaction, converted without loss; every other field has its zero value. In
  particular the response carries no events, whatever events the preflight returned
  beside its error.
\<close>

theorem preflight_failure_response:
  assumes "CallGetPreflight tx b a body fp \<in> set (snd (NewSimulateTransactionHandler c request))"
    and "GetPreflight c tx b a body fp = (result, Some err)"
    and "GetLatestLedgerSequence tx = Inr L"
  shows "\<exists>r. fst (NewSimulateTransactionHandler c request) = Returns r \<and>
             Error r = err \<and> LatestLedger r = ucast L \<and> sint (LatestLedger r) = uint L \<and>
             Events r = [] \<and> r = zero_response\<lparr>Error := err, LatestLedger := ucast L\<rparr>"
proof -
  from handler_GetPreflight [OF assms(1)] assms(3)
  obtain h: "NewSimulateTransactionHandler c request = runPreflight c a body fp"
    and n: "NewCachedTx c = Inr tx"
    and g: "getBucketListSize c L = (Returns (Inr b), [CallGetLedger L])"
    by auto
  from runPreflight_failure [OF n assms(3) g assms(2)] h
  show ?thesis
    by (simp add: zero_response_def sint_ucast_32_64)
qed

text \<open>
  A run of the theorem: a RestoreFootprint envelope whose preflight fails with
  \<open>''HostError''\<close> at ledger 7.
\<close>

theorem preflight_failure_response_witness:
  "\<exists>r. fst (NewSimulateTransactionHandler
              (exampleCollaborators
                 (EnvelopeTx (exampleTx [exampleOp OperationTypeRestoreFootprint]
                                (TransactionExtV1 exampleSorobanData)))
                 (Inr 7) (Inr (Some (exampleCloseMeta 2))) (examplePreflight, Some ''HostError''))
              exampleRequest) = Returns r \<and>
       Error r = ''HostError'' \<and> LatestLedger r = 7 \<and> sint (LatestLedger r) = 7 \<and> Events r = []"
proof -
  let ?c = "exampleCollaborators
              (EnvelopeTx (exampleTx [exampleOp OperationTypeRestoreFootprint]
                             (TransactionExtV1 exampleSorobanData)))
              (Inr 7) (Inr (Some (exampleCloseMeta 2))) (examplePreflight, Some ''HostError'')"
  have h1: "CallGetPreflight (exampleReadTx (Inr 7)) 4096 (AccountId ''GA'')
              (Body (exampleOp OperationTypeRestoreFootprint)) exampleFootprint
            \<in> set (snd (NewSimulateTransactionHandler ?c exampleRequest))"
    by (simp add: run_defs)
  have h2: "GetPreflight ?c (exampleReadTx (Inr 7)) 4096 (AccountId ''GA'')
              (Body (exampleOp OperationTypeRestoreFootprint)) exampleFootprint
            = (examplePreflight, Some ''HostError'')"
    by (simp add: exampleCollaborators_def)
  have h3: "GetLatestLedgerSequence (exampleReadTx (Inr 7)) = Inr 7"
    by (simp add: exampleReadTx_def)
  from preflight_failure_response [OF h1 h2 h3] show ?thesis
    by simp
qed

text \<open>
  C2 as stated asks for the events the VM produced before the failure. Here the
  preflight returns one event beside its error, and the response has none.
\<close>

theorem preflight_failure_drops_events:
  "GetPreflight
     (exampleCollaborators
        (EnvelopeTx (exampleTx [exampleOp OperationTypeInvokeHostFunction] TransactionExtV0))
        (Inr 7) (Inr (Some (exampleCloseMeta 2))) (examplePreflight, Some ''HostError''))
     (exampleReadTx (Inr 7)) 4096 (AccountId ''GA'')
     (Body (exampleOp OperationTypeInvokeHostFunction)) \<lparr>ReadOnly = [], ReadWrite = []\<rparr>
   = (examplePreflight, Some ''HostError'') \<and>
   PreflightEvents examplePreflight = [''AAAAAQ==''] \<and>
   NewSimulateTransactionHandler
     (exampleCollaborators
        (EnvelopeTx (exampleTx [exampleOp OperationTypeInvokeHostFunction] TransactionExtV0))
        (Inr 7) (Inr (Some (exampleCloseMeta 2))) (examplePreflight, Some ''HostError''))
     exampleRequest
   = (Returns (zero_response\<lparr>Error := ''HostError'', LatestLedger := 7\<rparr>),
      [CallNewCachedTx, CallGetLatestLedgerSequence, CallGetLedger 7,
       CallGetPreflight (exampleReadTx (Inr 7)) 4096 (AccountId ''GA'')
         (Body (exampleOp OperationTypeInvokeHostFunction)) \<lparr>ReadOnly = [], ReadWrite = []\<rparr>,
       CallDone]) \<and>
   Events (zero_response\<lparr>Error := ''HostError'', LatestLedger := 7\<rparr>) = []"
  by (simp add: run_defs)

subsection \<open>C3: the version of the close-meta record\<close>



subsection \<open>C4: an error or a result\<close>

text \<open>
  C4, as the handler has it. In every response with a non-empty error the result-bearing
  fields (results, transaction data, minimum resource fee, cost) have their zero values.
  A response with an empty error has exactly one result, with one exception: the
  handler passes on the message of a failing collaborator as it is, so when the envelope
  passes the input checks and the call that fails (\<^verbatim>\<open>GetLatestLedgerSequence\<close>,
  \<^verbatim>\<open>GetLedger\<close> or \<^verbatim>\<open>GetPreflight\<close>) returns an error whose message is empty,
  the response has an empty error and no result.
\<close>

theorem error_exclusive_or_result:
  assumes "fst (NewSimulateTransactionHandler c request) = Returns r"
  shows "(Error r \<noteq> [] \<longrightarrow>
            Results r = [] \<and> TransactionData r = [] \<and> MinResourceFee r = 0 \<and>
            Cost r = \<lparr>CPUInstructions = 0, MemoryBytes = 0\<rparr>) \<and>
         (Error r = [] \<longrightarrow>
            length (Results r) = 1 \<or>
            Results r = [] \<and>
            (\<exists>txEnvelope op fp tx.
               SafeUnmarshalBase64 c (Transaction request) = Inr txEnvelope \<and>
               Operations txEnvelope = [op] \<and>
               selectFootprint txEnvelope op = Returns (Inr fp) \<and>
               NewCachedTx c = Inr tx \<and>
               (GetLatestLedgerSequence tx = Inl [] \<or>
                (\<exists>L. GetLatestLedgerSequence tx = Inr L \<and>
                   (GetLedger c L = Inl [] \<or>
                    (\<exists>b. fst (getBucketListSize c L) = Returns (Inr b) \<and>
                       snd (GetPreflight c tx b
                              (case SourceAccount op of
                                 Some opSourceAccount \<Rightarrow> ToAccountId opSourceAccount
                               | None \<Rightarrow> ToAccountId (EnvelopeSourceAccount txEnvelope))
                              (Body op) fp) = Some []))))))"
proof (cases "SafeUnmarshalBase64 c (Transaction request)")
  case (Inl err)
  with assms show ?thesis
    by (auto simp: NewSimulateTransactionHandler_def error_response_def zero_response_def)
next
  case d: (Inr txEnvelope)
  show ?thesis
  proof (cases "length (Operations txEnvelope) = 1")
    case False
    with d assms show ?thesis
      by (auto simp: NewSimulateTransactionHandler_def error_response_def zero_response_def)
  next
    case True
    then obtain op where o: "Operations txEnvelope = [op]"
      by (auto simp: length_Suc_conv)
    note h = handler_single_op [OF d o]
    show ?thesis
    proof (cases "selectFootprint txEnvelope op")
      case Panics
      with h assms show ?thesis by simp
    next
      case (Returns x)
      show ?thesis
      proof (cases x)
        case (Inl response)
        with Returns selectFootprint_Inl [of txEnvelope op response] h assms
        show ?thesis
          by (auto simp: error_response_def zero_response_def)
      next
        case (Inr fp)
        define a where "a = (case SourceAccount op of
                     Some opSourceAccount \<Rightarrow> ToAccountId opSourceAccount
                   | None \<Rightarrow> ToAccountId (EnvelopeSourceAccount txEnvelope))"
        from Returns Inr have s: "selectFootprint txEnvelope op = Returns (Inr fp)" by simp
        with h have hr: "NewSimulateTransactionHandler c request = runPreflight c a (Body op) fp"
          by (simp add: a_def)
        show ?thesis
        proof (cases "NewCachedTx c")
          case (Inl err)
          with hr assms show ?thesis
            by (auto simp: runPreflight_def error_response_def zero_response_def)
        next
          case n: (Inr tx)
          show ?thesis
          proof (cases "GetLatestLedgerSequence tx")
            case (Inl err)
            with n hr assms have r: "r = error_response err"
              by (simp add: runPreflight_def)
            show ?thesis
            proof (cases "err = []")
              case True
              with d o s n Inl r show ?thesis
                by (auto simp: error_response_def zero_response_def)
            next
              case False
              with r show ?thesis
                by (simp add: error_response_def zero_response_def)
            qed
          next
            case l: (Inr L)
            obtain res calls where g: "getBucketListSize c L = (res, calls)"
              by (cases "getBucketListSize c L")
            show ?thesis
            proof (cases res)
              case Panics
              with n l g hr assms show ?thesis by (simp add: runPreflight_def)
            next
              case gr: (Returns y)
              show ?thesis
              proof (cases y)
                case (Inl err)
                with n l g gr hr assms have r: "r = error_response err"
                  by (simp add: runPreflight_def)
                show ?thesis
                proof (cases "err = []")
                  case True
                  with g gr Inl getBucketListSize_Inl_empty [of c L]
                  have "GetLedger c L = Inl []" by simp
                  with d o s n l r True show ?thesis
                    by (auto simp: error_response_def zero_response_def)
                next
                  case False
                  with r show ?thesis
                    by (simp add: error_response_def zero_response_def)
                qed
              next
                case b: (Inr b)
                from g gr b have gb: "fst (getBucketListSize c L) = Returns (Inr b)" by simp
                obtain p e where pf: "GetPreflight c tx b a (Body op) fp = (p, e)"
                  by (cases "GetPreflight c tx b a (Body op) fp")
                show ?thesis
                proof (cases e)
                  case None
                  with runPreflight_result [OF n l gb, of a "Body op" fp] pf hr assms
                  show ?thesis by auto
                next
                  case (Some err)
                  with runPreflight_result [OF n l gb, of a "Body op" fp] pf hr assms
                  have r: "r = zero_response\<lparr>Error := err, LatestLedger := ucast L\<rparr>"
                    by auto
                  show ?thesis
                  proof (cases "err = []")
                    case True
                    with pf Some have "snd (GetPreflight c tx b a (Body op) fp) = Some []"
                      by simp
                    with d o s n l gb r True show ?thesis
                      unfolding a_def
                      by (auto simp: zero_response_def)
                  next
                    case False
                    with r show ?thesis
                      by (simp add: zero_response_def)
                  qed
                qed
              qed
            qed
          qed
        qed
      qed
    qed
  qed
qed

text \<open>
  Two runs of the theorem: a successful InvokeHostFunction simulation whose ledger reader
  fails with an empty message on every ledger but the latest, and a simulation whose
  preflight fails with \<open>''HostError''\<close>.
\<close>

theorem error_exclusive_or_result_witness:
  "fst (NewSimulateTransactionHandler
          (exampleCollaborators
             (EnvelopeTx (exampleTx [exampleOp OperationTypeInvokeHostFunction] TransactionExtV0))
             (Inr 7) (Inr (Some (exampleCloseMeta 2))) (examplePreflight, None)
           \<lparr>GetLedger := (\<lambda>seq. if seq = 7 then Inr (Some (exampleCloseMeta 2)) else Inl [])\<rparr>)
          exampleRequest)
     = Returns \<lparr>Error = [], TransactionData = ''AAAAAA=='', Events = [''AAAAAQ==''],
                MinResourceFee = 100, Results = [\<lparr>Auth = [], XDR = ''AAAAAw==''\<rparr>],
                Cost = \<lparr>CPUInstructions = 1500, MemoryBytes = 300\<rparr>, LatestLedger = 7\<rparr> \<and>
   length (Results \<lparr>Error = [], TransactionData = ''AAAAAA=='', Events = [''AAAAAQ==''],
                MinResourceFee = 100, Results = [\<lparr>Auth = [], XDR = ''AAAAAw==''\<rparr>],
                Cost = \<lparr>CPUInstructions = 1500, MemoryBytes = 300\<rparr>, LatestLedger = 7\<rparr>) = 1 \<and>
   fst (NewSimulateTransactionHandler
          (exampleCollaborators
             (EnvelopeTx (exampleTx [exampleOp OperationTypeInvokeHostFunction] TransactionExtV0))
             (Inr 7) (Inr (Some (exampleCloseMeta 2))) (examplePreflight, Some ''HostError''))
          exampleRequest)
     = Returns (zero_response\<lparr>Error := ''HostError'', LatestLedger := 7\<rparr>) \<and>
   Results (zero_response\<lparr>Error := ''HostError'', LatestLedger := 7\<rparr>) = [] \<and>
   TransactionData (zero_response\<lparr>Error := ''HostError'', LatestLedger := 7\<rparr>) = [] \<and>
   MinResourceFee (zero_response\<lparr>Error := ''HostError'', LatestLedger := 7\<rparr>) = 0 \<and>
   Cost (zero_response\<lparr>Error := ''HostError'', LatestLedger := 7\<rparr>)
     = \<lparr>CPUInstructions = 0, MemoryBytes = 0\<rparr>"
proof -
  let ?e = "EnvelopeTx (exampleTx [exampleOp OperationTypeInvokeHostFunction] TransactionExtV0)"
  let ?c1 = "exampleCollaborators ?e (Inr 7) (Inr (Some (exampleCloseMeta 2))) (examplePreflight, None)
               \<lparr>GetLedger := (\<lambda>seq. if seq = 7 then Inr (Some (exampleCloseMeta 2)) else Inl [])\<rparr>"
  let ?c2 = "exampleCollaborators ?e (Inr 7) (Inr (Some (exampleCloseMeta 2)))
               (examplePreflight, Some ''HostError'')"
  let ?r1 = "\<lparr>Error = [], TransactionData = ''AAAAAA=='', Events = [''AAAAAQ==''],
                MinResourceFee = 100, Results = [\<lparr>Auth = [], XDR = ''AAAAAw==''\<rparr>],
                Cost = \<lparr>CPUInstructions = 1500, MemoryBytes = 300\<rparr>, LatestLedger = 7\<rparr>"
  let ?r2 = "zero_response\<lparr>Error := ''HostError'', LatestLedger := 7\<rparr>"
  have a: "fst (NewSimulateTransactionHandler ?c1 exampleRequest) = Returns ?r1"
    by (simp add: run_defs)
  have b: "fst (NewSimulateTransactionHandler ?c2 exampleRequest) = Returns ?r2"
    by (simp add: run_defs)
  have e1: "Error ?r1 = []" and n1: "Results ?r1 \<noteq> []" by simp_all
  have e2: "Error ?r2 \<noteq> []" by (simp add: zero_response_def)
  from error_exclusive_or_result [OF a] e1 n1 have "length (Results ?r1) = 1"
    by blast
  moreover from error_exclusive_or_result [OF b] e2
  have "Results ?r2 = [] \<and> TransactionData ?r2 = [] \<and> MinResourceFee ?r2 = 0 \<and>
        Cost ?r2 = \<lparr>CPUInstructions = 0, MemoryBytes = 0\<rparr>"
    by blast
  ultimately show ?thesis using a b by blast
qed

text \<open>
  C4 as stated holds of every response. A preflight whose error has the empty message
  gives a response with an empty error and no result.
\<close>

theorem empty_error_message_counterexample:
  "NewSimulateTransactionHandler
     (exampleCollaborators
        (EnvelopeTx (exampleTx [exampleOp OperationTypeInvokeHostFunction] TransactionExtV0))
        (Inr 7) (Inr (Some (exampleCloseMeta 2))) (examplePreflight, Some []))
     exampleRequest
   = (Returns (zero_response\<lparr>Error := [], LatestLedger := 7\<rparr>),
      [CallNewCachedTx, CallGetLatestLedgerSequence, CallGetLedger 7,
       CallGetPreflight (exampleReadTx (Inr 7)) 4096 (AccountId ''GA'')
         (Body (exampleOp OperationTypeInvokeHostFunction)) \<lparr>ReadOnly = [], ReadWrite = []\<rparr>,
       CallDone]) \<and>
   Error (zero_response\<lparr>Error := [], LatestLedger := 7\<rparr>) = [] \<and>
   Results (zero_response\<lparr>Error := [], LatestLedger := 7\<rparr>) = []"
  by (simp add: run_defs)

subsection \<open>C5: the footprint handed to the preflight\<close>

text \<open>
  C5. When the envelope holds one operation and the read transaction, the latest ledger
  and the bucket-list size are there, the response is the one built from what
  \<^verbatim>\<open>GetPreflight\<close> returns on a footprint fixed by the type of the operation: the
  empty footprint for InvokeHostFunction, whatever the envelope declares inline; for
  BumpFootprintExpiration and RestoreFootprint the footprint of the envelope's inline
  Soroban data, unchanged. The call recorded in the trace has the same arguments.
\<close>

theorem footprint_handed_to_preflight:
  assumes "SafeUnmarshalBase64 c (Transaction request) = Inr txEnvelope"
    and "Operations txEnvelope = [op]"
    and "NewCachedTx c = Inr tx" and "GetLatestLedgerSequence tx = Inr L"
    and "fst (getBucketListSize c L) = Returns (Inr b)"
    and "BodyType (Body op) = OperationTypeInvokeHostFunction \<and>
           fp = \<lparr>ReadOnly = [], ReadWrite = []\<rparr>
         \<or> (BodyType (Body op) = OperationTypeBumpFootprintExpiration
             \<or> BodyType (Body op) = OperationTypeRestoreFootprint) \<and>
           txEnvelope = EnvelopeTx t \<and> Ext t = TransactionExtV1 d \<and>
           fp = Footprint (Resources d)"
  shows "NewSimulateTransactionHandler c request =
           (case GetPreflight c tx b
                   (case SourceAccount op of
                      Some opSourceAccount \<Rightarrow> ToAccountId opSourceAccount
                    | None \<Rightarrow> ToAccountId (EnvelopeSourceAccount txEnvelope))
                   (Body op) fp of
              (result, Some err) \<Rightarrow>
                Returns (zero_response\<lparr>Error := err, LatestLedger := ucast L\<rparr>)
            | (result, None) \<Rightarrow>
                Returns
                  \<lparr>Error = [],
                   TransactionData = PreflightTransactionData result,
                   Events = PreflightEvents result,
                   MinResourceFee = MinFee result,
                   Results = [\<lparr>Auth = PreflightAuth result, XDR = Result result\<rparr>],
                   Cost = \<lparr>CPUInstructions = PreflightCPUInstructions result,
                           MemoryBytes = PreflightMemoryBytes result\<rparr>,
                   LatestLedger = ucast L\<rparr>,
            [CallNewCachedTx, CallGetLatestLedgerSequence, CallGetLedger L,
             CallGetPreflight tx b
               (case SourceAccount op of
                  Some opSourceAccount \<Rightarrow> ToAccountId opSourceAccount
                | None \<Rightarrow> ToAccountId (EnvelopeSourceAccount txEnvelope))
               (Body op) fp,
             CallDone])"
proof -
  have "selectFootprint txEnvelope op = Returns (Inr fp)"
    using assms(6) selectFootprint_bump_restore [of op txEnvelope]
    by (auto simp: selectFootprint_invoke)
  with handler_single_op [OF assms(1,2)] runPreflight_result [OF assms(3,4,5)]
  show ?thesis by simp
qed

text \<open>
  Two runs of the theorem, with the preflight that answers with the keys it is given: an
  InvokeHostFunction envelope that declares a footprint inline receives no key, and a
  BumpFootprintExpiration envelope with the same declaration receives both keys. Each
  run is obtained twice, from the theorem and by evaluating the handler.
\<close>

theorem footprint_handed_to_preflight_witness:
  "NewSimulateTransactionHandler
          (exampleEchoCollaborators
             (EnvelopeTx (exampleTx [exampleOp OperationTypeInvokeHostFunction]
                            (TransactionExtV1 exampleSorobanData))))
          exampleRequest
     = (Returns \<lparr>Error = [], TransactionData = [], Events = [''AAAAAQ==''],
                MinResourceFee = 100, Results = [\<lparr>Auth = [], XDR = ''AAAAAw==''\<rparr>],
                Cost = \<lparr>CPUInstructions = 1500, MemoryBytes = 300\<rparr>, LatestLedger = 7\<rparr>,
        [CallNewCachedTx, CallGetLatestLedgerSequence, CallGetLedger 7,
         CallGetPreflight (exampleReadTx (Inr 7)) 4096 (AccountId ''GA'')
           (Body (exampleOp OperationTypeInvokeHostFunction)) \<lparr>ReadOnly = [], ReadWrite = []\<rparr>,
         CallDone]) \<and>
   NewSimulateTransactionHandler
          (exampleEchoCollaborators
             (EnvelopeTx (exampleTx [exampleOp OperationTypeBumpFootprintExpiration]
                            (TransactionExtV1 exampleSorobanData))))
          exampleRequest
     = (Returns \<lparr>Error = [], TransactionData = ''codedata'', Events = [''AAAAAQ==''],
                MinResourceFee = 100, Results = [\<lparr>Auth = [], XDR = ''AAAAAw==''\<rparr>],
                Cost = \<lparr>CPUInstructions = 1500, MemoryBytes = 300\<rparr>, LatestLedger = 7\<rparr>,
        [CallNewCachedTx, CallGetLatestLedgerSequence, CallGetLedger 7,
         CallGetPreflight (exampleReadTx (Inr 7)) 4096 (AccountId ''GA'')
           (Body (exampleOp OperationTypeBumpFootprintExpiration))
           \<lparr>ReadOnly = [LedgerKey ''code''], ReadWrite = [LedgerKey ''data'']\<rparr>,
         CallDone]) \<and>
   Footprint (Resources exampleSorobanData)
     = \<lparr>ReadOnly = [LedgerKey ''code''], ReadWrite = [LedgerKey ''data'']\<rparr> \<and>
   echoFootprint \<lparr>ReadOnly = [], ReadWrite = []\<rparr>
     = (examplePreflight\<lparr>PreflightTransactionData := []\<rparr>, None) \<and>
   echoFootprint \<lparr>ReadOnly = [LedgerKey ''code''], ReadWrite = [LedgerKey ''data'']\<rparr>
     = (examplePreflight\<lparr>PreflightTransactionData := ''codedata''\<rparr>, None)"
proof -
  let ?e1 = "EnvelopeTx (exampleTx [exampleOp OperationTypeInvokeHostFunction]
                          (TransactionExtV1 exampleSorobanData))"
  let ?e2 = "EnvelopeTx (exampleTx [exampleOp OperationTypeBumpFootprintExpiration]
                          (TransactionExtV1 exampleSorobanData))"
  let ?t1 = "exampleTx [exampleOp OperationTypeInvokeHostFunction] (TransactionExtV1 exampleSorobanData)"
  let ?t2 = "exampleTx [exampleOp OperationTypeBumpFootprintExpiration]
               (TransactionExtV1 exampleSorobanData)"
  have d1: "SafeUnmarshalBase64 (exampleEchoCollaborators ?e1) (Transaction exampleRequest) = Inr ?e1"
    and d2: "SafeUnmarshalBase64 (exampleEchoCollaborators ?e2) (Transaction exampleRequest) = Inr ?e2"
    by (simp_all add: exampleEchoCollaborators_def exampleCollaborators_def exampleRequest_def)
  have o1: "Operations ?e1 = [exampleOp OperationTypeInvokeHostFunction]"
    and o2: "Operations ?e2 = [exampleOp OperationTypeBumpFootprintExpiration]"
    by (simp_all add: exampleTx_def)
  have n: "NewCachedTx (exampleEchoCollaborators e) = Inr (exampleReadTx (Inr 7))" for e
    by (simp add: exampleEchoCollaborators_def exampleCollaborators_def)
  have l: "GetLatestLedgerSequence (exampleReadTx (Inr 7)) = Inr 7"
    by (simp add: exampleReadTx_def)
  have g: "fst (getBucketListSize (exampleEchoCollaborators e) 7) = Returns (Inr 4096)" for e
    by (simp add: getBucketListSize_def exampleEchoCollaborators_def exampleCollaborators_def
          exampleCloseMeta_def)
  have f1: "BodyType (Body (exampleOp OperationTypeInvokeHostFunction)) = OperationTypeInvokeHostFunction \<and>
              \<lparr>ReadOnly = [], ReadWrite = []\<rparr> = \<lparr>ReadOnly = [], ReadWrite = []\<rparr>
            \<or> (BodyType (Body (exampleOp OperationTypeInvokeHostFunction)) = OperationTypeBumpFootprintExpiration
                \<or> BodyType (Body (exampleOp OperationTypeInvokeHostFunction)) = OperationTypeRestoreFootprint) \<and>
              ?e1 = EnvelopeTx ?t1 \<and> Ext ?t1 = TransactionExtV1 exampleSorobanData \<and>
              \<lparr>ReadOnly = [], ReadWrite = []\<rparr> = Footprint (Resources exampleSorobanData)"
    by (simp add: exampleOp_def)
  have f2: "BodyType (Body (exampleOp OperationTypeBumpFootprintExpiration)) = OperationTypeInvokeHostFunction \<and>
              Footprint (Resources exampleSorobanData) = \<lparr>ReadOnly = [], ReadWrite = []\<rparr>
            \<or> (BodyType (Body (exampleOp OperationTypeBumpFootprintExpiration)) = OperationTypeBumpFootprintExpiration
                \<or> BodyType (Body (exampleOp OperationTypeBumpFootprintExpiration)) = OperationTypeRestoreFootprint) \<and>
              ?e2 = EnvelopeTx ?t2 \<and> Ext ?t2 = TransactionExtV1 exampleSorobanData \<and>
              Footprint (Resources exampleSorobanData) = Footprint (Resources exampleSorobanData)"
    by (simp add: exampleOp_def exampleTx_def)
  have fp: "Footprint (Resources exampleSorobanData)
              = \<lparr>ReadOnly = [LedgerKey ''code''], ReadWrite = [LedgerKey ''data'']\<rparr>"
    by (simp add: exampleSorobanData_def exampleFootprint_def)
  have e1: "echoFootprint \<lparr>ReadOnly = [], ReadWrite = []\<rparr>
              = (examplePreflight\<lparr>PreflightTransactionData := []\<rparr>, None)"
    and e2: "echoFootprint \<lparr>ReadOnly = [LedgerKey ''code''], ReadWrite = [LedgerKey ''data'']\<rparr>
              = (examplePreflight\<lparr>PreflightTransactionData := ''codedata''\<rparr>, None)"
    by (simp_all add: echoFootprint_def)
  have run1: "NewSimulateTransactionHandler (exampleEchoCollaborators ?e1) exampleRequest
          = (Returns \<lparr>Error = [], TransactionData = [], Events = [''AAAAAQ==''],
                MinResourceFee = 100, Results = [\<lparr>Auth = [], XDR = ''AAAAAw==''\<rparr>],
                Cost = \<lparr>CPUInstructions = 1500, MemoryBytes = 300\<rparr>, LatestLedger = 7\<rparr>,
        [CallNewCachedTx, CallGetLatestLedgerSequence, CallGetLedger 7,
         CallGetPreflight (exampleReadTx (Inr 7)) 4096 (AccountId ''GA'')
           (Body (exampleOp OperationTypeInvokeHostFunction)) \<lparr>ReadOnly = [], ReadWrite = []\<rparr>,
         CallDone])"
    by (simp add: run_defs exampleEchoCollaborators_def echoFootprint_def)
  have run2: "NewSimulateTransactionHandler (exampleEchoCollaborators ?e2) exampleRequest
          = (Returns \<lparr>Error = [], TransactionData = ''codedata'', Events = [''AAAAAQ==''],
                MinResourceFee = 100, Results = [\<lparr>Auth = [], XDR = ''AAAAAw==''\<rparr>],
                Cost = \<lparr>CPUInstructions = 1500, MemoryBytes = 300\<rparr>, LatestLedger = 7\<rparr>,
        [CallNewCachedTx, CallGetLatestLedgerSequence, CallGetLedger 7,
         CallGetPreflight (exampleReadTx (Inr 7)) 4096 (AccountId ''GA'')
           (Body (exampleOp OperationTypeBumpFootprintExpiration))
           \<lparr>ReadOnly = [LedgerKey ''code''], ReadWrite = [LedgerKey ''data'']\<rparr>,
         CallDone])"
    by (simp add: run_defs exampleEchoCollaborators_def echoFootprint_def)
  from footprint_handed_to_preflight [OF d1 o1 n l g f1]
  have t1: "NewSimulateTransactionHandler (exampleEchoCollaborators ?e1) exampleRequest
          = (Returns \<lparr>Error = [], TransactionData = [], Events = [''AAAAAQ==''],
                MinResourceFee = 100, Results = [\<lparr>Auth = [], XDR = ''AAAAAw==''\<rparr>],
                Cost = \<lparr>CPUInstructions = 1500, MemoryBytes = 300\<rparr>, LatestLedger = 7\<rparr>,
        [CallNewCachedTx, CallGetLatestLedgerSequence, CallGetLedger 7,
         CallGetPreflight (exampleReadTx (Inr 7)) 4096 (AccountId ''GA'')
           (Body (exampleOp OperationTypeInvokeHostFunction)) \<lparr>ReadOnly = [], ReadWrite = []\<rparr>,
         CallDone])"
    by (simp add: exampleEchoCollaborators_def echoFootprint_def examplePreflight_def
          exampleOp_def exampleTx_def)
  from footprint_handed_to_preflight [OF d2 o2 n l g f2] fp
  have t2: "NewSimulateTransactionHandler (exampleEchoCollaborators ?e2) exampleRequest
          = (Returns \<lparr>Error = [], TransactionData = ''codedata'', Events = [''AAAAAQ==''],
                MinResourceFee = 100, Results = [\<lparr>Auth = [], XDR = ''AAAAAw==''\<rparr>],
                Cost = \<lparr>CPUInstructions = 1500, MemoryBytes = 300\<rparr>, LatestLedger = 7\<rparr>,
        [CallNewCachedTx, CallGetLatestLedgerSequence, CallGetLedger 7,
         CallGetPreflight (exampleReadTx (Inr 7)) 4096 (AccountId ''GA'')
           (Body (exampleOp OperationTypeBumpFootprintExpiration))
           \<lparr>ReadOnly = [LedgerKey ''code''], ReadWrite = [LedgerKey ''data'']\<rparr>,
         CallDone])"
    by (simp add: exampleEchoCollaborators_def echoFootprint_def examplePreflight_def
          exampleOp_def exampleTx_def)
  from t1 t2 run1 run2 fp e1 e2 show ?thesis by blast
qed

subsection \<open>C6: the number of operations\<close>

text \<open>
  C6. For every envelope that decodes and does not hold exactly one operation, the
  handler returns a response whose error field is
  \<open>''Transaction contains more than one operation''\<close> and whose other fields are empty:
  no results, and no call to a collaborator. The types of the operations play no part, so
  the check comes before the check of the operation type.
\<close>

theorem operation_count_checked_first:
  assumes "SafeUnmarshalBase64 c (Transaction request) = Inr txEnvelope"
    and "length (Operations txEnvelope) \<noteq> 1"
  shows "\<exists>r. NewSimulateTransactionHandler c request = (Returns r, []) \<and>
             Error r = ''Transaction contains more than one operation'' \<and>
             Results r = [] \<and> TransactionData r = [] \<and> Events r = [] \<and>
             MinResourceFee r = 0 \<and> Cost r = \<lparr>CPUInstructions = 0, MemoryBytes = 0\<rparr> \<and>
             LatestLedger r = 0"
  using assms
  by (simp add: NewSimulateTransactionHandler_def error_response_def zero_response_def)

text \<open>
  Two runs of the theorem: an envelope with two operations of an unsupported type, and
  an envelope with no operation. Beside them, one operation of that type alone meets the
  check of the operation type.
\<close>

theorem operation_count_checked_first_witness:
  "(\<exists>r. NewSimulateTransactionHandler
          (exampleCollaborators
             (EnvelopeTx (exampleTx
                [exampleOp (OperationTypeOther ''OperationTypePayment''),
                 exampleOp (OperationTypeOther ''OperationTypePayment'')] TransactionExtV0))
             (Inr 7) (Inr (Some (exampleCloseMeta 2))) (examplePreflight, None))
          exampleRequest = (Returns r, []) \<and>
        Error r = ''Transaction contains more than one operation'' \<and> Results r = []) \<and>
   (\<exists>r. NewSimulateTransactionHandler
          (exampleCollaborators
             (EnvelopeTxV0 (exampleTxV0 []))
             (Inr 7) (Inr (Some (exampleCloseMeta 2))) (examplePreflight, None))
          exampleRequest = (Returns r, []) \<and>
        Error r = ''Transaction contains more than one operation'' \<and> Results r = []) \<and>
   (\<exists>r. NewSimulateTransactionHandler
          (exampleCollaborators
             (EnvelopeTx (exampleTx
                [exampleOp (OperationTypeOther ''OperationTypePayment'')] TransactionExtV0))
             (Inr 7) (Inr (Some (exampleCloseMeta 2))) (examplePreflight, None))
          exampleRequest = (Returns r, []) \<and>
        Error r = ''Transaction contains unsupported operation type: OperationTypePayment'')"
proof -
  let ?e1 = "EnvelopeTx (exampleTx
           [exampleOp (OperationTypeOther ''OperationTypePayment''),
            exampleOp (OperationTypeOther ''OperationTypePayment'')] TransactionExtV0)"
  let ?e2 = "EnvelopeTxV0 (exampleTxV0 [])"
  let ?c1 = "exampleCollaborators ?e1 (Inr 7) (Inr (Some (exampleCloseMeta 2))) (examplePreflight, None)"
  let ?c2 = "exampleCollaborators ?e2 (Inr 7) (Inr (Some (exampleCloseMeta 2))) (examplePreflight, None)"
  have d1: "SafeUnmarshalBase64 ?c1 (Transaction exampleRequest) = Inr ?e1"
    and d2: "SafeUnmarshalBase64 ?c2 (Transaction exampleRequest) = Inr ?e2"
    by (simp_all add: exampleCollaborators_def exampleRequest_def)
  have n1: "length (Operations ?e1) \<noteq> 1" and n2: "length (Operations ?e2) \<noteq> 1"
    by (simp_all add: exampleTx_def exampleTxV0_def)
  from operation_count_checked_first [OF d1 n1]
  have "\<exists>r. NewSimulateTransactionHandler ?c1 exampleRequest = (Returns r, []) \<and>
        Error r = ''Transaction contains more than one operation'' \<and> Results r = []"
    by blast
  moreover from operation_count_checked_first [OF d2 n2]
  have "\<exists>r. NewSimulateTransactionHandler ?c2 exampleRequest = (Returns r, []) \<and>
        Error r = ''Transaction contains more than one operation'' \<and> Results r = []"
    by blast
  moreover have "\<exists>r. NewSimulateTransactionHandler
          (exampleCollaborators
             (EnvelopeTx (exampleTx
                [exampleOp (OperationTypeOther ''OperationTypePayment'')] TransactionExtV0))
             (Inr 7) (Inr (Some (exampleCloseMeta 2))) (examplePreflight, None))
          exampleRequest = (Returns r, []) \<and>
        Error r = ''Transaction contains unsupported operation type: OperationTypePayment''"
    by (simp add: run_defs)
  ultimately show ?thesis by blast
qed

subsection \<open>C7: cost and latest ledger of a successful simulation\<close>



subsection \<open>C8: input errors open no snapshot\<close>

text \<open>
  C8. For every input error (a malformed envelope, a wrong number of operations, an
  unsupported operation type, missing resource data) the response is to hold the error
  message only, and no read transaction is to be created before the error is returned.

  For the first three the handler does so (\<open>reported_input_errors_open_no_snapshot\<close>).
  For missing resource data it returns no response: on a BumpFootprintExpiration
  operation in an envelope of type TxV0 the left operand of the condition of line 75 is
  true, the right one reads \<^verbatim>\<open>txEnvelope.V1.Tx\<close> through the nil \<^verbatim>\<open>V1\<close>,
  and the handler panics. No read transaction has been created by then.
\<close>

theorem bump_in_v0_envelope_panics:
  "NewSimulateTransactionHandler
     (exampleCollaborators
        (EnvelopeTxV0 (exampleTxV0 [exampleOp OperationTypeBumpFootprintExpiration]))
        (Inr 7) (Inr (Some (exampleCloseMeta 2))) (examplePreflight, None))
     exampleRequest
   = (Panics, [])"
  by (simp add: run_defs)

subsection \<open>C10: one result\<close>



end
